theory Spec2Isabelle
  imports Complex_Main
begin

section \<open>Least-squares fitting of a kinetic model (k\_seq/estimate/least\_squares.py)\<close>

text \<open>
  The development embeds the class \<open>SingleFitter\<close> and the class \<open>FitResults\<close>. NumPy arrays
  and pandas series are mutable objects that several owners may share, so they live in an
  explicit heap; the logger, the random generator of NumPy and the file system are further
  components of the state that every operation receives and returns. A Python exception is
  the left injection of a sum.

  Code that the module calls but does not contain is a field of the environment \<open>env\<close>:
  the solver \<open>scipy.optimize.curve_fit\<close>, the reflection helper \<open>get_func_params\<close>, the
  random generator, row sampling and the text codec of pandas, and the \<open>run\<close> methods of the
  classes \<open>Bootstrap\<close>, \<open>Replicates\<close> and \<open>ConvergenceTester\<close>.
\<close>

subsection \<open>Values, exceptions, log\<close>

datatype npfloat = NaN | NegInf | PosInf | Val real

text \<open>
  The exceptions that the module raises, catches or lets through. In Python
  \<open>JSONDecodeError\<close> is a subclass of \<open>ValueError\<close>; \<open>OtherException\<close> stands for every
  class that is neither a \<open>RuntimeError\<close> nor a \<open>ValueError\<close> and has no constructor here.
\<close>

datatype exn =
    RuntimeError
  | ValueError string
  | JSONDecodeError
  | KeyError string
  | IndexError
  | TypeError
  | OtherException string

fun is_RuntimeError :: "exn \<Rightarrow> bool" where
  "is_RuntimeError RuntimeError = True"
| "is_RuntimeError _ = False"

fun is_ValueError :: "exn \<Rightarrow> bool" where
  "is_ValueError (ValueError _) = True"
| "is_ValueError JSONDecodeError = True"
| "is_ValueError _ = False"

datatype level = DEBUG | INFO | WARNING | ERROR

text \<open>
  A log entry is a message with its level. The three warnings of \<open>_fit\<close> are formatted from
  the data of the attempt; \<open>FitWarning\<close> keeps the headline and the three values apart.
\<close>

datatype log_entry =
    Log level string
  | FitWarning string "npfloat list" "npfloat list" "npfloat list option"


subsection \<open>Series, frames and the heap of arrays\<close>

type_synonym series = "(string \<times> npfloat) list"

record frame =
  fr_index :: "string list"
  fr_columns :: "string list"
  fr_data :: "npfloat list list"

definition shape :: "frame \<Rightarrow> nat \<times> nat" where
  "shape d = (length (fr_index d), length (fr_columns d))"

datatype obj = NdArray "npfloat list" | PdSeries series

fun values_of :: "obj \<Rightarrow> npfloat list" where
  "values_of (NdArray xs) = xs"
| "values_of (PdSeries ps) = map snd ps"

definition len :: "obj \<Rightarrow> nat" where
  "len a = length (values_of a)"

type_synonym addr = nat
type_synonym heap = "obj list"

definition alloc :: "heap \<Rightarrow> obj \<Rightarrow> addr \<times> heap" where
  "alloc h v = (length h, h @ [v])"

definition deref :: "heap \<Rightarrow> addr \<Rightarrow> obj" where
  "deref h a = h ! a"

text \<open>\<open>a[i] = v\<close> on the array at an address; the index is in range.\<close>

fun set_item :: "obj \<Rightarrow> nat \<Rightarrow> npfloat \<Rightarrow> obj" where
  "set_item (NdArray xs) i v = NdArray (xs[i := v])"
| "set_item (PdSeries ps) i v = PdSeries (ps[i := (fst (ps ! i), v)])"

definition store :: "heap \<Rightarrow> addr \<Rightarrow> nat \<Rightarrow> npfloat \<Rightarrow> heap" where
  "store h a i v = h[a := set_item (h ! a) i v]"

text \<open>
  What a caller passes as \<open>x_data\<close>, \<open>y_data\<close> or \<open>sigma\<close>: a Python list, or a reference to
  an array or series that the caller keeps.
\<close>

datatype pydata = PyList "npfloat list" | Ref addr

definition data_len :: "heap \<Rightarrow> pydata \<Rightarrow> nat" where
  "data_len h d = (case d of PyList xs \<Rightarrow> length xs | Ref a \<Rightarrow> len (deref h a))"

text \<open>\<open>np.array(d)\<close> for a list, the object itself otherwise.\<close>

definition as_array :: "heap \<Rightarrow> pydata \<Rightarrow> obj" where
  "as_array h d = (case d of PyList xs \<Rightarrow> NdArray xs | Ref a \<Rightarrow> deref h a)"

text \<open>\<open>y != 0\<close>, elementwise.\<close>

definition nonzero_mask :: "obj \<Rightarrow> bool list" where
  "nonzero_mask y = map (\<lambda>v. v \<noteq> Val 0) (values_of y)"

definition select :: "'a list \<Rightarrow> bool list \<Rightarrow> 'a list" where
  "select xs m = map fst (filter snd (zip xs m))"

text \<open>
  \<open>a[mask]\<close> with a boolean mask: a new object holding the selected entries; NumPy and pandas
  raise \<open>IndexError\<close> when the mask has another length than the object.
\<close>

definition mask_index :: "obj \<Rightarrow> bool list \<Rightarrow> exn + obj" where
  "mask_index a m =
     (if length m \<noteq> len a then Inl IndexError
      else Inr (case a of NdArray xs \<Rightarrow> NdArray (select xs m)
                        | PdSeries ps \<Rightarrow> PdSeries (select ps m)))"

subsection \<open>Configuration and results\<close>

datatype bounds = ScalarBounds npfloat npfloat | VectorBounds "npfloat list" "npfloat list"

type_synonym metrics = "(string \<times> (npfloat list \<Rightarrow> exn + npfloat)) list"
type_synonym kwargs = "(string \<times> string) list"

text \<open>
  Modelled from the spec: class \<open>Bootstrap\<close> (estimate/bootstrap.py) is not part of the
  sources at hand. The record keeps the attributes that \<open>SingleFitter\<close> passes, reads or
  assigns; an attribute that the caller leaves to the class default is \<open>None\<close>. The same
  holds for \<open>ConvergenceTester\<close> (estimate/convergence.py).
\<close>

record bootstrap =
  b_bootstrap_num :: "int option"
  b_bs_record_num :: "int option"
  b_bs_method :: "string option"
  b_record_full :: "bool option"

record tester =
  t_conv_reps :: "int option"

record 'm fit_results =
  r_model :: "'m option"
  r_x_data :: "addr option"
  r_y_data :: "addr option"
  r_sigma :: "addr option"
  r_x_label :: "string option"
  r_y_label :: "string option"
  r_params :: "series option"
  r_pcov :: "frame option"
  r_unc_summary :: "series option"
  r_bs_records :: "frame option"
  r_rep_results :: "frame option"
  r_conv_summary :: "series option"
  r_conv_records :: "frame option"

text \<open>
  The name space \<open>config\<close> of a fitter. The entries \<open>bs_stats\<close>, \<open>conv_stats\<close>,
  \<open>conv_init_range\<close> and \<open>grouper\<close> are stored and handed on to the three helper classes
  only; they are left out. Of a \<open>Replicates\<close> or \<open>ConvergenceTester\<close> object the fitter
  keeps the one argument it was built from.
\<close>

record config =
  c_x_label :: "string option"
  c_y_label :: "string option"
  c_opt_method :: string
  c_exclude_zero :: bool
  c_init_guess :: "npfloat list option"
  c_rnd_seed :: "int option"
  c_curve_fit_kwargs :: kwargs
  c_sigma :: addr
  c_bounds :: bounds
  c_replicates :: "string list list option"
  c_bootstrap_num :: int
  c_bs_record_num :: "int option"
  c_bs_method :: string
  c_record_full :: bool
  c_conv_reps :: int
  c_metrics :: "metrics option"

record 'm fitter =
  s_model :: 'm
  s_parameters :: "string list"
  s_name :: "string option"
  s_config :: config
  s_x_data :: addr
  s_y_data :: addr
  s_replicates :: "string list list option"
  s_bootstrap :: "bootstrap option"
  s_converge_tester :: "tester option"
  s_results :: "'m fit_results"
  s_save_to :: "string option"
  s_overwrite :: bool

subsection \<open>State and environment\<close>

datatype disk_file = NotJson | Json "(string \<times> (string \<times> string option) list) list"

record 'g world =
  w_heap :: heap
  w_log :: "log_entry list"
  w_level :: string
  w_rng :: 'g
  w_fs :: "string \<Rightarrow> disk_file option"

definition logging :: "log_entry \<Rightarrow> 'g world \<Rightarrow> 'g world" where
  "logging e w = w\<lparr>w_log := w_log w @ [e]\<rparr>"

text \<open>
  Modelled from the spec: \<open>yutility.logging.error\<close> is not part of the sources at hand. The
  spec lets construction fail on a length mismatch, so the call logs the message and raises
  the exception class it is given.
\<close>

definition logging_error :: "string \<Rightarrow> 'g world \<Rightarrow> exn \<times> 'g world" where
  "logging_error msg w = (ValueError msg, logging (Log ERROR msg) w)"

record ('m, 'g) env =
  get_func_params :: "'m \<Rightarrow> string list"
  np_random :: "'g \<Rightarrow> real \<times> 'g"
  np_seed :: "int \<Rightarrow> 'g"
  curve_fit :: "'m \<Rightarrow> npfloat list \<Rightarrow> npfloat list \<Rightarrow> npfloat list option \<Rightarrow> bounds
                 \<Rightarrow> npfloat list \<Rightarrow> kwargs \<Rightarrow> exn + (npfloat list \<times> npfloat list list)"
  sample_rows :: "'g \<Rightarrow> nat \<Rightarrow> nat \<Rightarrow> nat list \<times> 'g"
  bootstrap_run :: "'m fitter \<Rightarrow> bootstrap \<Rightarrow> 'g world \<Rightarrow> (exn + series \<times> frame) \<times> 'g world"
  replicates_run :: "'m fitter \<Rightarrow> 'g world \<Rightarrow> (exn + series \<times> frame) \<times> 'g world"
  converge_run :: "'m fitter \<Rightarrow> 'g world \<Rightarrow> (exn + series \<times> frame) \<times> 'g world"
  series_to_json :: "series \<Rightarrow> string"
  frame_to_json :: "frame \<Rightarrow> string"
  read_json_series :: "string \<Rightarrow> exn + series"
  read_json_frame :: "string \<Rightarrow> exn + frame"

subsection \<open>FitResults.\_\_init\_\_\<close>

text \<open>
  A result object without estimator has an empty data scope; with an estimator it takes
  \<open>.copy()\<close> of the three arrays, each copy a new object. The four scopes are flattened
  into the fields of one record; the back reference \<open>self.estimator\<close> is not kept.
\<close>

definition FitResults_init :: "heap \<Rightarrow> 'm fitter option \<Rightarrow> 'm option \<Rightarrow> 'm fit_results \<times> heap" where
  "FitResults_init h estimator model =
     (case estimator of
        None \<Rightarrow>
          (\<lparr>r_model = model, r_x_data = None, r_y_data = None, r_sigma = None,
            r_x_label = None, r_y_label = None, r_params = None, r_pcov = None,
            r_unc_summary = None, r_bs_records = None, r_rep_results = None,
            r_conv_summary = None, r_conv_records = None\<rparr>, h)
      | Some e \<Rightarrow>
          (let (ax, h1) = alloc h (deref h (s_x_data e));
               (ay, h2) = alloc h1 (deref h1 (s_y_data e));
               (asg, h3) = alloc h2 (deref h2 (c_sigma (s_config e)))
           in (\<lparr>r_model = Some (s_model e), r_x_data = Some ax, r_y_data = Some ay,
                r_sigma = Some asg, r_x_label = c_x_label (s_config e),
                r_y_label = c_y_label (s_config e), r_params = None, r_pcov = None,
                r_unc_summary = None, r_bs_records = None, r_rep_results = None,
                r_conv_summary = None, r_conv_records = None\<rparr>, h3)))"

subsection \<open>SingleFitter.\_\_init\_\_\<close>

record 'm init_args =
  i_x_data :: pydata
  i_y_data :: pydata
  i_model :: 'm
  i_name :: "string option"
  i_x_label :: "string option"
  i_y_label :: "string option"
  i_sigma :: "pydata option"
  i_bounds :: "bounds option"
  i_init_guess :: "npfloat list option"
  i_opt_method :: string
  i_exclude_zero :: bool
  i_metrics :: "metrics option"
  i_rnd_seed :: "int option"
  i_curve_fit_kwargs :: "kwargs option"
  i_replicates :: "string list list option"
  i_bootstrap_num :: int
  i_bs_record_num :: "int option"
  i_bs_method :: string
  i_record_full :: bool
  i_conv_reps :: int
  i_save_to :: "string option"
  i_overwrite :: bool
  i_verbose :: int

text \<open>The keyword defaults of the signature.\<close>

definition default_args :: "pydata \<Rightarrow> pydata \<Rightarrow> 'm \<Rightarrow> 'm init_args" where
  "default_args x y m =
     \<lparr>i_x_data = x, i_y_data = y, i_model = m, i_name = None, i_x_label = None,
      i_y_label = None, i_sigma = None, i_bounds = None, i_init_guess = None,
      i_opt_method = ''trf'', i_exclude_zero = False, i_metrics = None, i_rnd_seed = None,
      i_curve_fit_kwargs = None, i_replicates = None, i_bootstrap_num = 0,
      i_bs_record_num = Some 0, i_bs_method = ''pct_res'', i_record_full = False,
      i_conv_reps = 0, i_save_to = None, i_overwrite = False, i_verbose = 1\<rparr>"

definition set_level :: "string \<Rightarrow> 'g world \<Rightarrow> 'g world" where
  "set_level l w = w\<lparr>w_level := l\<rparr>"

text \<open>Lines 117 to 124: the verbosity switch.\<close>

definition init_verbose :: "int \<Rightarrow> 'g world \<Rightarrow> (exn + unit) \<times> 'g world" where
  "init_verbose verbose w =
     (if verbose = 0 then (Inr (), set_level ''warning'' w)
      else if verbose = 1 then (Inr (), set_level ''info'' w)
      else if verbose = 2 then (Inr (), set_level ''debug'' w)
      else (case logging_error ''verbose should be 0, 1, or 2'' w of
              (e, w') \<Rightarrow> (Inl e, w')))"

text \<open>
  Lines 141 to 157: the three objects that the fitter stores, before they are given an
  address. Every one of them is the result of indexing with the mask, or the fresh array
  of ones.
\<close>

definition init_data ::
  "heap \<Rightarrow> pydata \<Rightarrow> pydata \<Rightarrow> pydata option \<Rightarrow> bool \<Rightarrow> exn + (obj \<times> obj \<times> obj)" where
  "init_data h x_data y_data sigma exclude_zero =
     (let x = as_array h x_data;
          y = as_array h y_data;
          mask = (if exclude_zero then nonzero_mask y else replicate (len x) True)
      in case mask_index x mask of
           Inl e \<Rightarrow> Inl e
         | Inr xs \<Rightarrow>
        (case mask_index y mask of
           Inl e \<Rightarrow> Inl e
         | Inr ys \<Rightarrow>
        (case (case sigma of
                 None \<Rightarrow> Inr (NdArray (replicate (len ys) (Val 1)))
               | Some s \<Rightarrow> mask_index (as_array h s) mask) of
           Inl e \<Rightarrow> Inl e
         | Inr sg \<Rightarrow> Inr (xs, ys, sg))))"

definition SingleFitter_init ::
  "('m, 'g) env \<Rightarrow> 'm init_args \<Rightarrow> 'g world \<Rightarrow> (exn + 'm fitter) \<times> 'g world" where
  "SingleFitter_init env a w0 =
     (case init_verbose (i_verbose a) w0 of
        (Inl e, w1) \<Rightarrow> (Inl e, w1)
      | (Inr _, w1) \<Rightarrow>
     if data_len (w_heap w1) (i_x_data a) \<noteq> data_len (w_heap w1) (i_y_data a)
     then (case logging_error ''Shapes of x and y do not match'' w1 of
             (e, w2) \<Rightarrow> (Inl e, w2))
     else
     (case init_data (w_heap w1) (i_x_data a) (i_y_data a) (i_sigma a) (i_exclude_zero a) of
        Inl e \<Rightarrow> (Inl e, w1)
      | Inr (xs, ys, sg) \<Rightarrow>
       (let (ax, h1) = alloc (w_heap w1) xs;
            (ay, h2) = alloc h1 ys;
            (asg, h3) = alloc h2 sg;
            bs_record_num =
              (if i_bootstrap_num a > 0 \<and> len xs > 1 \<and> i_bs_record_num a = None
               then Some 0 else i_bs_record_num a);
            self0 =
              \<lparr>s_model = i_model a,
               s_parameters = tl (get_func_params env (i_model a)),
               s_name = i_name a,
               s_config =
                 \<lparr>c_x_label = i_x_label a, c_y_label = i_y_label a,
                  c_opt_method = i_opt_method a, c_exclude_zero = i_exclude_zero a,
                  c_init_guess = i_init_guess a, c_rnd_seed = i_rnd_seed a,
                  c_curve_fit_kwargs =
                    (case i_curve_fit_kwargs a of None \<Rightarrow> [] | Some k \<Rightarrow> k),
                  c_sigma = asg,
                  c_bounds =
                    (case i_bounds a of None \<Rightarrow> ScalarBounds NegInf PosInf | Some b \<Rightarrow> b),
                  c_replicates = i_replicates a,
                  c_bootstrap_num = i_bootstrap_num a,
                  c_bs_record_num = bs_record_num,
                  c_bs_method = i_bs_method a,
                  c_record_full = i_record_full a,
                  c_conv_reps = i_conv_reps a,
                  c_metrics = i_metrics a\<rparr>,
               s_x_data = ax,
               s_y_data = ay,
               s_replicates = i_replicates a,
               s_bootstrap =
                 (if i_bootstrap_num a > 0 \<and> len xs > 1
                  then Some \<lparr>b_bootstrap_num = Some (i_bootstrap_num a),
                             b_bs_record_num = bs_record_num,
                             b_bs_method = Some (i_bs_method a),
                             b_record_full = Some (i_record_full a)\<rparr>
                  else None),
               s_converge_tester =
                 (if i_conv_reps a > 0 then Some \<lparr>t_conv_reps = Some (i_conv_reps a)\<rparr>
                  else None),
               s_results = fst (FitResults_init h3 None None),
               s_save_to = i_save_to a,
               s_overwrite = i_overwrite a\<rparr>;
            (res, h4) = FitResults_init h3 (Some self0) None
        in (Inr (self0\<lparr>s_results := res\<rparr>),
            logging (Log DEBUG ''initiated'') (w1\<lparr>w_heap := h4\<rparr>)))))"

subsection \<open>SingleFitter.\_fit and point\_estimate\<close>

text \<open>
  Modelled from the spec: \<open>update_none\<close> (utility/func\_tools.py) is not part of the sources at
  hand; the doc string of \<open>_fit\<close> says that arguments are inferred from the attributes of the
  instance if not provided. The second form is for an attribute that may itself be \<open>None\<close>.
\<close>

definition update_none :: "'a option \<Rightarrow> 'a \<Rightarrow> 'a" where
  "update_none arg dflt = (case arg of None \<Rightarrow> dflt | Some v \<Rightarrow> v)"

definition update_none_opt :: "'a option \<Rightarrow> 'a option \<Rightarrow> 'a option" where
  "update_none_opt arg dflt = (case arg of None \<Rightarrow> dflt | Some v \<Rightarrow> Some v)"

datatype bounds_arg = Unspecified | Given "bounds option"

record 'm fit_args =
  a_model :: "'m option"
  a_x_data :: "npfloat list option"
  a_y_data :: "npfloat list option"
  a_sigma :: "npfloat list option"
  a_bounds :: bounds_arg
  a_metrics :: "metrics option"
  a_init_guess :: "npfloat list option"
  a_curve_fit_kwargs :: "kwargs option"

definition no_args :: "'m fit_args" where
  "no_args = \<lparr>a_model = None, a_x_data = None, a_y_data = None, a_sigma = None,
              a_bounds = Unspecified, a_metrics = None, a_init_guess = None,
              a_curve_fit_kwargs = None\<rparr>"

text \<open>Lines 219 to 234: the values that the attempt works with.\<close>

record 'm fit_inputs =
  in_model :: 'm
  in_parameters :: "string list"
  in_x_data :: "npfloat list"
  in_y_data :: "npfloat list"
  in_sigma :: "npfloat list option"
  in_bounds :: bounds
  in_metrics :: "metrics option"
  in_init_guess :: "npfloat list option"
  in_curve_fit_kwargs :: kwargs

definition sigma_ignored :: string where
  "sigma_ignored = ''Sigma is ignored as it has different length as x_data''"

definition fit_inputs ::
  "('m, 'g) env \<Rightarrow> 'm fitter \<Rightarrow> 'm fit_args \<Rightarrow> 'g world \<Rightarrow> 'm fit_inputs \<times> 'g world" where
  "fit_inputs env self a w =
     (let model = update_none (a_model a) (s_model self);
          parameters = tl (get_func_params env model);
          x_data = update_none (a_x_data a) (values_of (deref (w_heap w) (s_x_data self)));
          y_data = update_none (a_y_data a) (values_of (deref (w_heap w) (s_y_data self)));
          sigma = update_none (a_sigma a)
                    (values_of (deref (w_heap w) (c_sigma (s_config self))));
          (sigma', w') =
            (if length x_data \<noteq> length sigma
             then (None, logging (Log DEBUG sigma_ignored) w)
             else (Some sigma, w));
          bounds = (case a_bounds a of
                      Unspecified \<Rightarrow> Some (c_bounds (s_config self))
                    | Given b \<Rightarrow> b);
          bounds' = (case bounds of None \<Rightarrow> ScalarBounds NegInf PosInf | Some b \<Rightarrow> b)
      in (\<lparr>in_model = model, in_parameters = parameters, in_x_data = x_data,
           in_y_data = y_data, in_sigma = sigma', in_bounds = bounds',
           in_metrics = update_none_opt (a_metrics a) (c_metrics (s_config self)),
           in_init_guess = update_none_opt (a_init_guess a) (c_init_guess (s_config self)),
           in_curve_fit_kwargs =
             update_none (a_curve_fit_kwargs a) (c_curve_fit_kwargs (s_config self))\<rparr>, w'))"

text \<open>\<open>[np.random.random() for _ in parameters]\<close>: one call of the generator per parameter.\<close>

fun draw :: "('g \<Rightarrow> real \<times> 'g) \<Rightarrow> 'a list \<Rightarrow> 'g \<Rightarrow> npfloat list \<times> 'g" where
  "draw rnd [] g = ([], g)"
| "draw rnd (p # ps) g =
     (case rnd g of (r, g1) \<Rightarrow> (case draw rnd ps g1 of (rs, g2) \<Rightarrow> (Val r # rs, g2)))"

text \<open>
  Lines 237 to 239. \<open>not init_guess\<close> holds for \<open>None\<close> and for the empty list.
\<close>

definition initial_guess ::
  "('g \<Rightarrow> real \<times> 'g) \<Rightarrow> string list \<Rightarrow> npfloat list option \<Rightarrow> 'g \<Rightarrow> npfloat list \<times> 'g" where
  "initial_guess rnd parameters init_guess g =
     (case init_guess of
        None \<Rightarrow> draw rnd parameters g
      | Some [] \<Rightarrow> draw rnd parameters g
      | Some (v # vs) \<Rightarrow> (v # vs, g))"

text \<open>\<open>{name: fn(params) for name, fn in metrics.items()}\<close>; the first exception ends it.\<close>

fun eval_metrics :: "metrics \<Rightarrow> npfloat list \<Rightarrow> exn + series" where
  "eval_metrics [] params = Inr []"
| "eval_metrics ((name, fn) # ms) params =
     (case fn params of
        Inl e \<Rightarrow> Inl e
      | Inr v \<Rightarrow> (case eval_metrics ms params of
                    Inl e \<Rightarrow> Inl e
                  | Inr vs \<Rightarrow> Inr ((name, v) # vs)))"

text \<open>The body of the \<open>try\<close> statement, lines 237 to 247.\<close>

definition fit_try ::
  "('m, 'g) env \<Rightarrow> 'm fit_inputs \<Rightarrow> 'g
     \<Rightarrow> (exn + npfloat list \<times> npfloat list list \<times> series option) \<times> 'g" where
  "fit_try env i g =
     (case initial_guess (np_random env) (in_parameters i) (in_init_guess i) g of
        (p0, g1) \<Rightarrow>
          (case curve_fit env (in_model i) (in_x_data i) (in_y_data i) (in_sigma i)
                  (in_bounds i) p0 (in_curve_fit_kwargs i) of
             Inl e \<Rightarrow> (Inl e, g1)
           | Inr (params, pcov) \<Rightarrow>
               (case in_metrics i of
                  None \<Rightarrow> (Inr (params, pcov, None), g1)
                | Some ms \<Rightarrow>
                    (case eval_metrics ms params of
                       Inl e \<Rightarrow> (Inl e, g1)
                     | Inr vs \<Rightarrow> (Inr (params, pcov, Some vs), g1)))))"

text \<open>The three handlers differ in the headline of the warning only.\<close>

definition headline :: "exn \<Rightarrow> string" where
  "headline e =
     (if is_RuntimeError e then ''RuntimeError on''
      else if is_ValueError e then ''ValueError on''
      else ''Other error observed on'')"

definition nan_result ::
  "string list \<Rightarrow> metrics option \<Rightarrow> npfloat list \<times> npfloat list list \<times> series option" where
  "nan_result parameters ms =
     (replicate (length parameters) NaN,
      replicate (length parameters) (replicate (length parameters) NaN),
      map_option (map (\<lambda>(name, fn). (name, NaN))) ms)"

text \<open>
  The constructors of pandas raise \<open>ValueError\<close> when the data do not fit the labels.
\<close>

definition pd_Series :: "npfloat list \<Rightarrow> string list \<Rightarrow> exn + series" where
  "pd_Series data index =
     (if length data \<noteq> length index
      then Inl (ValueError ''Length of values does not match length of index'')
      else Inr (zip index data))"

definition pd_DataFrame :: "npfloat list list \<Rightarrow> string list \<Rightarrow> string list \<Rightarrow> exn + frame" where
  "pd_DataFrame data index columns =
     (if length data \<noteq> length index \<or> (\<exists>row \<in> set data. length row \<noteq> length columns)
      then Inl (ValueError ''Shape of passed values does not match the indices'')
      else Inr \<lparr>fr_index = index, fr_columns = columns, fr_data = data\<rparr>)"

record fit_out =
  o_params :: series
  o_pcov :: frame
  o_metrics :: "series option"

definition SingleFitter_priv_fit ::
  "('m, 'g) env \<Rightarrow> 'm fitter \<Rightarrow> 'm fit_args \<Rightarrow> 'g world \<Rightarrow> (exn + fit_out) \<times> 'g world" where
  "SingleFitter_priv_fit env self a w =
     (case fit_inputs env self a w of
        (i, w1) \<Rightarrow>
     (case fit_try env i (w_rng w1) of
        (r, g) \<Rightarrow>
     (case (case r of
              Inr v \<Rightarrow> (v, w1\<lparr>w_rng := g\<rparr>)
            | Inl e \<Rightarrow>
                (nan_result (in_parameters i) (in_metrics i),
                 logging (FitWarning (headline e) (in_x_data i) (in_y_data i) (in_sigma i))
                   (w1\<lparr>w_rng := g\<rparr>))) of
        ((params, pcov, metrics_res), w2) \<Rightarrow>
     (case pd_Series params (in_parameters i) of
        Inl e \<Rightarrow> (Inl e, w2)
      | Inr ps \<Rightarrow>
     (case pd_DataFrame pcov (in_parameters i) (in_parameters i) of
        Inl e \<Rightarrow> (Inl e, w2)
      | Inr pc \<Rightarrow>
          (Inr \<lparr>o_params = ps, o_pcov = pc, o_metrics = metrics_res\<rparr>, w2))))))"

definition SingleFitter_point_estimate ::
  "('m, 'g) env \<Rightarrow> 'm fitter \<Rightarrow> 'm fit_args \<Rightarrow> 'g world \<Rightarrow> (exn + fit_out) \<times> 'g world" where
  "SingleFitter_point_estimate env self a w =
     (case SingleFitter_priv_fit env self a w of
        (Inl e, w1) \<Rightarrow> (Inl e, w1)
      | (Inr results, w1) \<Rightarrow>
          (Inr results, logging (Log DEBUG ''Point estimation finished'') w1))"

subsection \<open>SingleFitter.run\_bootstrap\<close>

record bs_kwargs =
  k_bs_method :: "string option"
  k_bootstrap_num :: "int option"

text \<open>The rows of a frame at the given positions, in that order.\<close>

definition take_rows :: "frame \<Rightarrow> nat list \<Rightarrow> frame" where
  "take_rows d idx =
     d\<lparr>fr_index := map (\<lambda>i. fr_index d ! i) idx, fr_data := map (\<lambda>i. fr_data d ! i) idx\<rparr>"

text \<open>
  \<open>results.sample(n, replace=False, axis=0)\<close>: pandas draws the positions from the generator
  of NumPy.
\<close>

definition df_sample :: "('m, 'g) env \<Rightarrow> frame \<Rightarrow> nat \<Rightarrow> 'g world \<Rightarrow> frame \<times> 'g world" where
  "df_sample env d n w =
     (case sample_rows env (w_rng w) n (length (fr_index d)) of
        (idx, g) \<Rightarrow> (take_rows d idx, w\<lparr>w_rng := g\<rparr>))"

text \<open>
  Lines 310 to 321: the bootstrap object that runs, a new one built from the keyword
  arguments when the fitter has none, the old one with the given attributes assigned
  otherwise.
\<close>

definition bootstrap_for :: "'m fitter \<Rightarrow> bs_kwargs \<Rightarrow> bootstrap" where
  "bootstrap_for self kw =
     (case s_bootstrap self of
        None \<Rightarrow> \<lparr>b_bootstrap_num = k_bootstrap_num kw, b_bs_record_num = None,
                  b_bs_method = k_bs_method kw, b_record_full = None\<rparr>
      | Some b0 \<Rightarrow>
          b0\<lparr>b_bs_method := (case k_bs_method kw of None \<Rightarrow> b_bs_method b0 | Some m \<Rightarrow> Some m),
             b_bootstrap_num :=
               (case k_bootstrap_num kw of None \<Rightarrow> b_bootstrap_num b0 | Some n \<Rightarrow> Some n)\<rparr>)"

definition SingleFitter_run_bootstrap ::
  "('m, 'g) env \<Rightarrow> 'm fitter \<Rightarrow> int option \<Rightarrow> bs_kwargs \<Rightarrow> 'g world
     \<Rightarrow> (exn + (series \<times> frame) \<times> 'm fitter) \<times> 'g world" where
  "SingleFitter_run_bootstrap env self bs_record_num kw w =
     (let bs_record_num' =
            (case bs_record_num of None \<Rightarrow> c_bs_record_num (s_config self) | Some n \<Rightarrow> Some n);
          self' = self\<lparr>s_bootstrap := Some (bootstrap_for self kw)\<rparr>
      in case bootstrap_run env self' (bootstrap_for self kw) w of
           (Inl e, w1) \<Rightarrow> (Inl e, w1)
         | (Inr (summary, results), w1) \<Rightarrow>
        (case bs_record_num' of
           None \<Rightarrow> (Inl TypeError, w1)
         | Some n \<Rightarrow>
        (case (if 0 \<le> n \<and> n \<le> int (length (fr_index results))
               then df_sample env results (nat n) w1 else (results, w1)) of
           (results', w2) \<Rightarrow>
             (Inr ((summary, results'), self'),
              logging (Log DEBUG ''Bootstrap finished'') w2))))"

subsection \<open>FitResults.to\_json and from\_json\<close>



















subsection \<open>SingleFitter.fit\<close>











subsection \<open>A concrete environment\<close>

text \<open>
  A model \<open>f(x, k)\<close>, a generator that always draws one half, a solver that returns its
  initial guess, a sampler that takes the first rows, and a bootstrap run with three records.
  The arguments \<open>args0\<close> are the scenario \<open>x = [0, 1, 2, 3]\<close>, \<open>y = [0, 0.5, 0.8, 0.9]\<close> with
  \<open>exclude_zero=True\<close> and every other argument at its default.
\<close>

definition env0 :: "(unit, nat) env" where
  "env0 =
     \<lparr>get_func_params = (\<lambda>_. [''x'', ''k'']),
      np_random = (\<lambda>g. (1 / 2, Suc g)),
      np_seed = (\<lambda>n. nat n),
      curve_fit = (\<lambda>m x y s b p0 k. Inr (p0, [[Val 0]])),
      sample_rows = (\<lambda>g n N. ([0..<n], g)),
      bootstrap_run = (\<lambda>f b w. (Inr ([], \<lparr>fr_index = [''0'', ''1'', ''2''], fr_columns = [''k''],
                                  fr_data = [[Val 1], [Val 2], [Val 3]]\<rparr>), w)),
      replicates_run = (\<lambda>f w. (Inl RuntimeError, w)),
      converge_run = (\<lambda>f w. (Inl RuntimeError, w)),
      series_to_json = (\<lambda>s. ''s''),
      frame_to_json = (\<lambda>d. ''d''),
      read_json_series = (\<lambda>j. Inr [(''k'', Val 1)]),
      read_json_frame = (\<lambda>j. Inr \<lparr>fr_index = [''0''], fr_columns = [''k''], fr_data = [[Val 1]]\<rparr>)\<rparr>"

definition world0 :: "nat world" where
  "world0 = \<lparr>w_heap = [], w_log = [], w_level = ''info'', w_rng = 0, w_fs = Map.empty\<rparr>"

definition args0 :: "unit init_args" where
  "args0 = (default_args (PyList [Val 0, Val 1, Val 2, Val 3])
              (PyList [Val 0, Val (1/2), Val (4/5), Val (9/10)]) ())\<lparr>i_exclude_zero := True\<rparr>"

text \<open>
  The fitter that the constructor returns for \<open>args0\<close>, and the state it leaves: the three
  stored arrays at the addresses 0 to 2, their copies in the result object at 3 to 5.
\<close>

definition fitter0 :: "unit fitter" where
  "fitter0 =
     \<lparr>s_model = (), s_parameters = [''k''], s_name = None,
      s_config =
        \<lparr>c_x_label = None, c_y_label = None, c_opt_method = ''trf'', c_exclude_zero = True,
         c_init_guess = None, c_rnd_seed = None, c_curve_fit_kwargs = [], c_sigma = 2,
         c_bounds = ScalarBounds NegInf PosInf, c_replicates = None, c_bootstrap_num = 0,
         c_bs_record_num = Some 0, c_bs_method = ''pct_res'', c_record_full = False,
         c_conv_reps = 0, c_metrics = None\<rparr>,
      s_x_data = 0, s_y_data = 1, s_replicates = None, s_bootstrap = None,
      s_converge_tester = None,
      s_results =
        \<lparr>r_model = Some (), r_x_data = Some 3, r_y_data = Some 4, r_sigma = Some 5,
         r_x_label = None, r_y_label = None, r_params = None, r_pcov = None,
         r_unc_summary = None, r_bs_records = None, r_rep_results = None,
         r_conv_summary = None, r_conv_records = None\<rparr>,
      s_save_to = None, s_overwrite = False\<rparr>"

definition world1 :: "nat world" where
  "world1 =
     \<lparr>w_heap =
        [NdArray [Val 1, Val 2, Val 3], NdArray [Val (1/2), Val (4/5), Val (9/10)],
         NdArray [Val 1, Val 1, Val 1], NdArray [Val 1, Val 2, Val 3],
         NdArray [Val (1/2), Val (4/5), Val (9/10)], NdArray [Val 1, Val 1, Val 1]],
      w_log = [Log DEBUG ''initiated''], w_level = ''info'', w_rng = 0, w_fs = Map.empty\<rparr>"

text \<open>A solver that never converges, and a call that asks for one metric.\<close>

definition env_fail :: "(unit, nat) env" where
  "env_fail = env0\<lparr>curve_fit := (\<lambda>m x y s b p0 k. Inl RuntimeError)\<rparr>"

definition args_kA :: "unit fit_args" where
  "args_kA = no_args\<lparr>a_metrics := Some [(''kA'', \<lambda>p. Inr (Val 1))]\<rparr>"


text \<open>The keyword arguments of \<open>run_bootstrap(bootstrap_num=3)\<close>.\<close>

definition kw3 :: bs_kwargs where
  "kw3 = \<lparr>k_bs_method = None, k_bootstrap_num = Some 3\<rparr>"






section \<open>Properties\<close>

subsection \<open>Masks and the constructor\<close>












subsection \<open>Construction and the shape check\<close>




subsection \<open>Exclusion of zeros\<close>







subsection \<open>The data scope of a result object\<close>

lemma init_args0: "SingleFitter_init env0 args0 world0 = (Inr fitter0, world1)"
  by (simp add: SingleFitter_init_def init_verbose_def args0_def default_args_def data_len_def
      world0_def set_level_def init_data_def as_array_def nonzero_mask_def mask_index_def
      len_def select_def alloc_def FitResults_init_def deref_def logging_def env0_def
      fitter0_def world1_def)

lemma deref_store_other: "a \<noteq> b \<Longrightarrow> deref (store h a i v) b = deref h b"
  by (simp add: deref_def store_def)

text \<open>
  C9. A result object made from an estimator holds its \<open>x_data\<close>, \<open>y_data\<close> and \<open>sigma\<close>
  at three new addresses, with the contents that the arrays of the estimator have at that
  moment, and the heap that existed before is unchanged. No address of the one is an address
  of the other: an assignment to an element of an array of the estimator leaves the three
  objects of the result as they are, and an assignment to an element of an object of the
  result leaves the arrays of the estimator as they are.
\<close>

theorem C9_copies:
  assumes valid: "s_x_data e < length h" "s_y_data e < length h" "c_sigma (s_config e) < length h"
  shows "\<exists>r h' ax ay asg.
           FitResults_init h (Some e) m = (r, h') \<and>
           r_x_data r = Some ax \<and> r_y_data r = Some ay \<and> r_sigma r = Some asg \<and>
           deref h' ax = deref h (s_x_data e) \<and>
           deref h' ay = deref h (s_y_data e) \<and>
           deref h' asg = deref h (c_sigma (s_config e)) \<and>
           take (length h) h' = h \<and>
           (\<forall>a \<in> {s_x_data e, s_y_data e, c_sigma (s_config e)}.
              \<forall>b \<in> {ax, ay, asg}. \<forall>i v.
                a \<noteq> b \<and>
                deref (store h' a i v) b = deref h' b \<and>
                deref (store h' b i v) a = deref h' a)"
proof -
  define h' where "h' = h @ [deref h (s_x_data e), deref h (s_y_data e), deref h (c_sigma (s_config e))]"
  define r :: "'a fit_results" where "r = fst (FitResults_init h (Some e) m)"
  have eq: "FitResults_init h (Some e) m = (r, h')"
    using valid by (simp add: r_def h'_def FitResults_init_def alloc_def deref_def nth_append)
  have ad: "r_x_data r = Some (length h)" "r_y_data r = Some (length h + 1)"
    "r_sigma r = Some (length h + 2)"
    by (simp_all add: r_def FitResults_init_def alloc_def)
  have cp: "deref h' (length h) = deref h (s_x_data e)"
    "deref h' (length h + 1) = deref h (s_y_data e)"
    "deref h' (length h + 2) = deref h (c_sigma (s_config e))"
    by (simp_all add: h'_def deref_def nth_append)
  have tk: "take (length h) h' = h"
    by (simp add: h'_def)
  have sep: "\<forall>a \<in> {s_x_data e, s_y_data e, c_sigma (s_config e)}.
              \<forall>b \<in> {length h, length h + 1, length h + 2}. \<forall>i v.
                a \<noteq> b \<and>
                deref (store h' a i v) b = deref h' b \<and>
                deref (store h' b i v) a = deref h' a"
    using valid by (auto simp: deref_store_other)
  show ?thesis
    using eq ad cp tk sep by blast
qed

theorem C9_copies_witness:
  "\<exists>r h'. FitResults_init (w_heap world1) (Some fitter0) None = (r, h') \<and>
      r_x_data r = Some 6 \<and>
      deref h' 6 = NdArray [Val 1, Val 2, Val 3] \<and>
      deref (store h' 0 0 NaN) 6 = NdArray [Val 1, Val 2, Val 3] \<and>
      deref (store h' 6 0 NaN) 0 = NdArray [Val 1, Val 2, Val 3]"
proof -
  have v: "s_x_data fitter0 < length (w_heap world1)" "s_y_data fitter0 < length (w_heap world1)"
    "c_sigma (s_config fitter0) < length (w_heap world1)"
    by (simp_all add: fitter0_def world1_def)
  from C9_copies[OF v, of None] obtain r h' ax ay asg where
    eq: "FitResults_init (w_heap world1) (Some fitter0) None = (r, h')"
    and ax: "r_x_data r = Some ax"
    and cp: "deref h' ax = deref (w_heap world1) (s_x_data fitter0)"
    and sep: "\<forall>a \<in> {s_x_data fitter0, s_y_data fitter0, c_sigma (s_config fitter0)}.
              \<forall>b \<in> {ax, ay, asg}. \<forall>i v.
                a \<noteq> b \<and>
                deref (store h' a i v) b = deref h' b \<and>
                deref (store h' b i v) a = deref h' a"
    by blast
  have a6: "ax = 6"
    using eq ax by (auto simp add: FitResults_init_def alloc_def world1_def fitter0_def)
  have x0: "s_x_data fitter0 = 0" by (simp add: fitter0_def)
  have d0: "deref (w_heap world1) 0 = NdArray [Val 1, Val 2, Val 3]"
    by (simp add: world1_def deref_def)
  have t: "take (length (w_heap world1)) h' = w_heap world1"
    using eq by (auto simp add: FitResults_init_def alloc_def)
  have d0': "deref h' 0 = NdArray [Val 1, Val 2, Val 3]"
    using eq by (auto simp add: FitResults_init_def alloc_def world1_def deref_def)
  from sep have "deref (store h' 0 0 NaN) ax = deref h' ax \<and> deref (store h' ax 0 NaN) 0 = deref h' 0"
    unfolding x0 by blast
  then show ?thesis
    using eq ax cp a6 x0 d0 d0' by auto
qed

subsection \<open>Point estimation\<close>

lemma zip_replicate_NaN: "zip ps (replicate (length ps) v) = map (\<lambda>n. (n, v)) ps"
  by (induction ps) auto

lemma fit_inputs_frame:
  "w_heap (snd (fit_inputs env self a w)) = w_heap w"
  "w_rng (snd (fit_inputs env self a w)) = w_rng w"
  "w_fs (snd (fit_inputs env self a w)) = w_fs w"
  by (simp_all add: fit_inputs_def Let_def logging_def split: prod.splits if_splits)

lemma fit_try_Inl:
  assumes "initial_guess (np_random env) (in_parameters i) (in_init_guess i) g = (p0, g1)"
    and "curve_fit env (in_model i) (in_x_data i) (in_y_data i) (in_sigma i) (in_bounds i) p0
           (in_curve_fit_kwargs i) = Inl e \<or>
         (\<exists>params pcov ms.
            curve_fit env (in_model i) (in_x_data i) (in_y_data i) (in_sigma i) (in_bounds i) p0
              (in_curve_fit_kwargs i) = Inr (params, pcov) \<and>
            in_metrics i = Some ms \<and> eval_metrics ms params = Inl e)"
  shows "fit_try env i g = (Inl e, g1)"
  using assms by (auto simp: fit_try_def)

lemma fit_try_Inr:
  assumes "initial_guess (np_random env) (in_parameters i) (in_init_guess i) g = (p0, g1)"
    and "fit_try env i g = (Inr (params, pcov, mres), g')"
  shows "curve_fit env (in_model i) (in_x_data i) (in_y_data i) (in_sigma i) (in_bounds i) p0
           (in_curve_fit_kwargs i) = Inr (params, pcov)"
  using assms by (auto simp: fit_try_def split: sum.splits option.splits)

lemma point_estimate_fail:
  assumes "fit_inputs env self a w = (i, w1)"
    and "fit_try env i (w_rng w1) = (Inl e, g)"
  shows "SingleFitter_point_estimate env self a w =
           (Inr \<lparr>o_params = map (\<lambda>n. (n, NaN)) (in_parameters i),
                 o_pcov = \<lparr>fr_index = in_parameters i, fr_columns = in_parameters i,
                           fr_data = replicate (length (in_parameters i))
                                       (replicate (length (in_parameters i)) NaN)\<rparr>,
                 o_metrics = map_option (map (\<lambda>(name, fn). (name, NaN))) (in_metrics i)\<rparr>,
            logging (Log DEBUG ''Point estimation finished'')
              (logging (FitWarning (headline e) (in_x_data i) (in_y_data i) (in_sigma i))
                 (w1\<lparr>w_rng := g\<rparr>)))"
  using assms
  by (simp add: SingleFitter_point_estimate_def SingleFitter_priv_fit_def nan_result_def
      pd_Series_def pd_DataFrame_def zip_replicate_NaN)

lemma point_estimate_ok:
  assumes "fit_inputs env self a w = (i, w1)"
    and "fit_try env i (w_rng w1) = (Inr (params, pcov, mres), g)"
    and "length params = length (in_parameters i)"
    and "length pcov = length (in_parameters i)"
    and "\<forall>row \<in> set pcov. length row = length (in_parameters i)"
  shows "SingleFitter_point_estimate env self a w =
           (Inr \<lparr>o_params = zip (in_parameters i) params,
                 o_pcov = \<lparr>fr_index = in_parameters i, fr_columns = in_parameters i,
                           fr_data = pcov\<rparr>,
                 o_metrics = mres\<rparr>,
            logging (Log DEBUG ''Point estimation finished'') (w1\<lparr>w_rng := g\<rparr>))"
  using assms
  by (simp add: SingleFitter_point_estimate_def SingleFitter_priv_fit_def
      pd_Series_def pd_DataFrame_def)

lemma fit_inputs_fitter0:
  "fit_inputs env fitter0 no_args world1 =
     (\<lparr>in_model = (), in_parameters = tl (get_func_params env ()),
       in_x_data = [Val 1, Val 2, Val 3], in_y_data = [Val (1/2), Val (4/5), Val (9/10)],
       in_sigma = Some [Val 1, Val 1, Val 1], in_bounds = ScalarBounds NegInf PosInf,
       in_metrics = None, in_init_guess = None, in_curve_fit_kwargs = []\<rparr>, world1)"
  by (simp add: fit_inputs_def fitter0_def world1_def no_args_def update_none_def
      update_none_opt_def deref_def Let_def)

text \<open>
  C1. Take any call of \<open>point_estimate\<close>, with the values \<open>i\<close> it works with and the initial
  guess \<open>p0\<close> it arrives at. If the solver raises an exception \<open>e\<close> of whatever class, or the
  solver returns and the evaluation of the metrics raises \<open>e\<close>, then \<open>point_estimate\<close> returns
  a result and raises nothing: the parameters are the declared names, each with NaN, as many
  as the model has parameters; the covariance is the square table of NaN over these names;
  every metric that was asked for is NaN (no metrics asked for, none returned); and the log
  holds a warning with the \<open>x\<close>, \<open>y\<close> and \<open>sigma\<close> of the attempt.
\<close>

theorem C1_failure_gives_nan:
  assumes inp: "fit_inputs env self a w = (i, w1)"
    and p0: "initial_guess (np_random env) (in_parameters i) (in_init_guess i) (w_rng w) = (p0, g)"
    and fail:
      "curve_fit env (in_model i) (in_x_data i) (in_y_data i) (in_sigma i) (in_bounds i) p0
         (in_curve_fit_kwargs i) = Inl e \<or>
       (\<exists>params pcov ms.
          curve_fit env (in_model i) (in_x_data i) (in_y_data i) (in_sigma i) (in_bounds i) p0
            (in_curve_fit_kwargs i) = Inr (params, pcov) \<and>
          in_metrics i = Some ms \<and> eval_metrics ms params = Inl e)"
  shows "\<exists>out w'.
           SingleFitter_point_estimate env self a w = (Inr out, w') \<and>
           o_params out = map (\<lambda>n. (n, NaN)) (in_parameters i) \<and>
           length (o_params out) = length (in_parameters i) \<and>
           o_pcov out = \<lparr>fr_index = in_parameters i, fr_columns = in_parameters i,
                          fr_data = replicate (length (in_parameters i))
                                      (replicate (length (in_parameters i)) NaN)\<rparr> \<and>
           o_metrics out = map_option (map (\<lambda>(name, fn). (name, NaN))) (in_metrics i) \<and>
           FitWarning (headline e) (in_x_data i) (in_y_data i) (in_sigma i) \<in> set (w_log w') \<and>
           w_heap w' = w_heap w"
proof -
  have rng: "w_rng w1 = w_rng w" and hp: "w_heap w1 = w_heap w"
    using fit_inputs_frame[of env self a w] inp by simp_all
  have "fit_try env i (w_rng w1) = (Inl e, g)"
    unfolding rng by (rule fit_try_Inl[OF p0 fail])
  from point_estimate_fail[OF inp this] show ?thesis
    by (simp add: logging_def hp)
qed

theorem C1_failure_gives_nan_witness:
  "\<exists>w'. SingleFitter_point_estimate env_fail fitter0 args_kA world1 =
           (Inr \<lparr>o_params = [(''k'', NaN)],
                 o_pcov = \<lparr>fr_index = [''k''], fr_columns = [''k''], fr_data = [[NaN]]\<rparr>,
                 o_metrics = Some [(''kA'', NaN)]\<rparr>, w') \<and>
         FitWarning ''RuntimeError on'' [Val 1, Val 2, Val 3] [Val (1/2), Val (4/5), Val (9/10)]
           (Some [Val 1, Val 1, Val 1]) \<in> set (w_log w')"
proof -
  obtain i w1 where inp: "fit_inputs env_fail fitter0 args_kA world1 = (i, w1)"
    by (cases "fit_inputs env_fail fitter0 args_kA world1")
  then have i: "in_parameters i = [''k'']" "in_x_data i = [Val 1, Val 2, Val 3]"
    "in_y_data i = [Val (1/2), Val (4/5), Val (9/10)]" "in_sigma i = Some [Val 1, Val 1, Val 1]"
    "map_option (map (\<lambda>(name, fn). (name, NaN))) (in_metrics i) = Some [(''kA'', NaN)]"
    by (auto simp add: fit_inputs_def fitter0_def world1_def no_args_def args_kA_def
        update_none_def update_none_opt_def deref_def Let_def env_fail_def env0_def)
  obtain p0 g where p0:
    "initial_guess (np_random env_fail) (in_parameters i) (in_init_guess i) (w_rng world1) = (p0, g)"
    by (cases "initial_guess (np_random env_fail) (in_parameters i) (in_init_guess i) (w_rng world1)")
  have fail: "curve_fit env_fail (in_model i) (in_x_data i) (in_y_data i) (in_sigma i)
       (in_bounds i) p0 (in_curve_fit_kwargs i) = Inl RuntimeError \<or>
     (\<exists>params pcov ms.
        curve_fit env_fail (in_model i) (in_x_data i) (in_y_data i) (in_sigma i) (in_bounds i) p0
          (in_curve_fit_kwargs i) = Inr (params, pcov) \<and>
        in_metrics i = Some ms \<and> eval_metrics ms params = Inl RuntimeError)"
    by (simp add: env_fail_def)
  from C1_failure_gives_nan[OF inp p0 fail] show ?thesis
    by (cases "snd (SingleFitter_point_estimate env_fail fitter0 args_kA world1)")
       (auto simp add: i headline_def)
qed

text \<open>
  C7. \<open>point_estimate\<close> returns parameters keyed by the declared parameter names of the
  model, in their order, and a covariance table that is square, with these names as row
  labels and as column labels. This holds when the attempt fails, and when it succeeds with
  a solver that returns one value per declared parameter and a covariance matrix of that
  size.
\<close>

theorem C7_labels:
  assumes inp: "fit_inputs env self a w = (i, w1)"
    and p0: "initial_guess (np_random env) (in_parameters i) (in_init_guess i) (w_rng w) = (p0, g)"
    and shape:
      "\<forall>params pcov.
         curve_fit env (in_model i) (in_x_data i) (in_y_data i) (in_sigma i) (in_bounds i) p0
           (in_curve_fit_kwargs i) = Inr (params, pcov) \<longrightarrow>
         length params = length (in_parameters i) \<and> length pcov = length (in_parameters i) \<and>
         (\<forall>row \<in> set pcov. length row = length (in_parameters i))"
  shows "in_parameters i = tl (get_func_params env (update_none (a_model a) (s_model self))) \<and>
         (\<exists>out w'.
            SingleFitter_point_estimate env self a w = (Inr out, w') \<and>
            map fst (o_params out) = in_parameters i \<and>
            fr_index (o_pcov out) = in_parameters i \<and>
            fr_columns (o_pcov out) = in_parameters i \<and>
            length (fr_data (o_pcov out)) = length (in_parameters i) \<and>
            (\<forall>row \<in> set (fr_data (o_pcov out)). length row = length (in_parameters i)))"
proof -
  have rng: "w_rng w1 = w_rng w"
    using fit_inputs_frame[of env self a w] inp by simp
  have names: "in_parameters i = tl (get_func_params env (update_none (a_model a) (s_model self)))"
    using inp by (auto simp: fit_inputs_def Let_def split: prod.splits)
  obtain r g' where ft: "fit_try env i (w_rng w1) = (r, g')"
    by (cases "fit_try env i (w_rng w1)")
  have "\<exists>out w'.
            SingleFitter_point_estimate env self a w = (Inr out, w') \<and>
            map fst (o_params out) = in_parameters i \<and>
            fr_index (o_pcov out) = in_parameters i \<and>
            fr_columns (o_pcov out) = in_parameters i \<and>
            length (fr_data (o_pcov out)) = length (in_parameters i) \<and>
            (\<forall>row \<in> set (fr_data (o_pcov out)). length row = length (in_parameters i))"
  proof (cases r)
    case (Inl e)
    from point_estimate_fail[OF inp ft[unfolded Inl]] show ?thesis
      by (simp add: comp_def)
  next
    case (Inr v)
    obtain params pcov mres where v: "v = (params, pcov, mres)"
      by (cases v)
    have "curve_fit env (in_model i) (in_x_data i) (in_y_data i) (in_sigma i) (in_bounds i) p0
            (in_curve_fit_kwargs i) = Inr (params, pcov)"
      using fit_try_Inr[OF p0] ft unfolding Inr v rng by blast
    with shape have s: "length params = length (in_parameters i)"
      "length pcov = length (in_parameters i)"
      "\<forall>row \<in> set pcov. length row = length (in_parameters i)"
      by blast+
    from point_estimate_ok[OF inp ft[unfolded Inr v] s] s show ?thesis
      by simp
  qed
  with names show ?thesis by blast
qed

theorem C7_labels_witness:
  "\<exists>out w'. SingleFitter_point_estimate env0 fitter0 no_args world1 = (Inr out, w') \<and>
      map fst (o_params out) = [''k''] \<and>
      fr_index (o_pcov out) = [''k''] \<and> fr_columns (o_pcov out) = [''k''] \<and>
      length (fr_data (o_pcov out)) = 1"
proof -
  define i :: "unit fit_inputs" where "i = fst (fit_inputs env0 fitter0 no_args world1)"
  have inp: "fit_inputs env0 fitter0 no_args world1 = (i, world1)"
    by (simp add: i_def fit_inputs_fitter0)
  have ip: "in_parameters i = [''k'']" "in_init_guess i = None"
    by (simp_all add: i_def fit_inputs_fitter0 env0_def)
  have p0: "initial_guess (np_random env0) (in_parameters i) (in_init_guess i) (w_rng world1)
              = ([Val (1/2)], Suc 0)"
    by (simp add: ip initial_guess_def env0_def world1_def)
  have shape: "\<forall>params pcov.
         curve_fit env0 (in_model i) (in_x_data i) (in_y_data i) (in_sigma i) (in_bounds i)
           [Val (1/2)] (in_curve_fit_kwargs i) = Inr (params, pcov) \<longrightarrow>
         length params = length (in_parameters i) \<and> length pcov = length (in_parameters i) \<and>
         (\<forall>row \<in> set pcov. length row = length (in_parameters i))"
    by (auto simp add: ip env0_def)
  from C7_labels[OF inp p0 shape] show ?thesis
    by (auto simp add: ip)
qed

subsection \<open>The initial guess and the weights\<close>








subsection \<open>The stored bootstrap records\<close>

text \<open>
  An unset \<open>bs_record_num\<close> does not keep all records. The fitter built from \<open>args0\<close> has
  \<open>bs_record_num\<close> at the default of the constructor; \<open>run_bootstrap(bootstrap_num=3)\<close>, called
  without \<open>bs_record_num\<close>, gets three records from the bootstrap run and returns none of them.
\<close>

theorem C5_counterexample:
  "SingleFitter_init env0 args0 world0 = (Inr fitter0, world1) \<and>
   i_bs_record_num args0 = i_bs_record_num (default_args (i_x_data args0) (i_y_data args0) ()) \<and>
   fst (bootstrap_run env0 (fitter0\<lparr>s_bootstrap := Some (bootstrap_for fitter0 kw3)\<rparr>)
          (bootstrap_for fitter0 kw3) world1)
     = Inr ([], \<lparr>fr_index = [''0'', ''1'', ''2''], fr_columns = [''k''],
                 fr_data = [[Val 1], [Val 2], [Val 3]]\<rparr>) \<and>
   fst (SingleFitter_run_bootstrap env0 fitter0 None kw3 world1)
     = Inr (([], \<lparr>fr_index = [], fr_columns = [''k''], fr_data = []\<rparr>),
            fitter0\<lparr>s_bootstrap := Some \<lparr>b_bootstrap_num = Some 3, b_bs_record_num = None,
                                          b_bs_method = None, b_record_full = None\<rparr>\<rparr>)"
proof -
  have "fst (SingleFitter_run_bootstrap env0 fitter0 None kw3 world1)
     = Inr (([], \<lparr>fr_index = [], fr_columns = [''k''], fr_data = []\<rparr>),
            fitter0\<lparr>s_bootstrap := Some \<lparr>b_bootstrap_num = Some 3, b_bs_record_num = None,
                                          b_bs_method = None, b_record_full = None\<rparr>\<rparr>)"
    by (simp add: SingleFitter_run_bootstrap_def bootstrap_for_def kw3_def fitter0_def env0_def
        df_sample_def take_rows_def Let_def)
  moreover have "fst (bootstrap_run env0 (fitter0\<lparr>s_bootstrap := Some (bootstrap_for fitter0 kw3)\<rparr>)
          (bootstrap_for fitter0 kw3) world1)
     = Inr ([], \<lparr>fr_index = [''0'', ''1'', ''2''], fr_columns = [''k''],
                 fr_data = [[Val 1], [Val 2], [Val 3]]\<rparr>)"
    by (simp add: env0_def)
  moreover have "i_bs_record_num args0
      = i_bs_record_num (default_args (i_x_data args0) (i_y_data args0) ())"
    by (simp add: args0_def default_args_def)
  ultimately show ?thesis
    using init_args0 by simp
qed

text \<open>
  C5, amended. Let the bootstrap run return \<open>N\<close> record rows, and let \<open>n\<close> be the effective
  \<open>bs_record_num\<close>: the argument, or the configured value when the argument is absent (the
  constructor configures 0 when nothing is given). If \<open>0 \<le> n \<le> N\<close>, the returned table consists
  of \<open>n\<close> rows at pairwise different positions of the record table, as the sampler without
  replacement picks them; if \<open>n\<close> is negative or larger than \<open>N\<close>, all \<open>N\<close> rows are returned.
\<close>

theorem C5_record_subsample:
  assumes run: "bootstrap_run env (self\<lparr>s_bootstrap := Some (bootstrap_for self kw)\<rparr>)
                  (bootstrap_for self kw) w = (Inr (summary, results), w1)"
    and n: "(case bs_record_num of None \<Rightarrow> c_bs_record_num (s_config self) | Some k \<Rightarrow> Some k)
              = Some n"
    and smp: "\<forall>g k N. k \<le> N \<longrightarrow>
                (let idx = fst (sample_rows env g k N)
                 in distinct idx \<and> length idx = k \<and> (\<forall>j \<in> set idx. j < N))"
  shows "\<exists>results' self' w'.
           SingleFitter_run_bootstrap env self bs_record_num kw w
             = (Inr ((summary, results'), self'), w') \<and>
           (if 0 \<le> n \<and> n \<le> int (length (fr_index results))
            then \<exists>idx. distinct idx \<and> length idx = nat n \<and>
                   (\<forall>j \<in> set idx. j < length (fr_index results)) \<and>
                   results' = take_rows results idx \<and>
                   length (fr_index results') = nat n
            else results' = results)"
proof (cases "0 \<le> n \<and> n \<le> int (length (fr_index results))")
  case True
  define idx where "idx = fst (sample_rows env (w_rng w1) (nat n) (length (fr_index results)))"
  have "nat n \<le> length (fr_index results)"
    using True by linarith
  with smp have i: "distinct idx" "length idx = nat n" "\<forall>j \<in> set idx. j < length (fr_index results)"
    unfolding idx_def Let_def by blast+
  have "fst (df_sample env results (nat n) w1) = take_rows results idx"
    by (simp add: df_sample_def idx_def split: prod.splits)
  then obtain w2 where "df_sample env results (nat n) w1 = (take_rows results idx, w2)"
    by (cases "df_sample env results (nat n) w1") simp
  then have "SingleFitter_run_bootstrap env self bs_record_num kw w
      = (Inr ((summary, take_rows results idx), self\<lparr>s_bootstrap := Some (bootstrap_for self kw)\<rparr>),
         logging (Log DEBUG ''Bootstrap finished'') w2)"
    using run n True by (simp add: SingleFitter_run_bootstrap_def Let_def)
  moreover have "length (fr_index (take_rows results idx)) = nat n"
    using i(2) by (simp add: take_rows_def)
  ultimately show ?thesis
    using True i by auto
next
  case False
  then have "SingleFitter_run_bootstrap env self bs_record_num kw w
      = (Inr ((summary, results), self\<lparr>s_bootstrap := Some (bootstrap_for self kw)\<rparr>),
         logging (Log DEBUG ''Bootstrap finished'') w1)"
    using run n by (auto simp add: SingleFitter_run_bootstrap_def Let_def)
  then show ?thesis
    using False by auto
qed

theorem C5_record_subsample_witness:
  "\<exists>results' self' w'.
     SingleFitter_run_bootstrap env0 fitter0 (Some 2) kw3 world1
       = (Inr (([], results'), self'), w') \<and> length (fr_index results') = 2"
proof -
  have run: "bootstrap_run env0 (fitter0\<lparr>s_bootstrap := Some (bootstrap_for fitter0 kw3)\<rparr>)
                  (bootstrap_for fitter0 kw3) world1
       = (Inr ([], \<lparr>fr_index = [''0'', ''1'', ''2''], fr_columns = [''k''],
                    fr_data = [[Val 1], [Val 2], [Val 3]]\<rparr>), world1)"
    by (simp add: env0_def)
  have n: "(case Some 2 of None \<Rightarrow> c_bs_record_num (s_config fitter0) | Some k \<Rightarrow> Some k)
              = Some (2::int)"
    by simp
  have smp: "\<forall>g k N. k \<le> N \<longrightarrow>
                (let idx = fst (sample_rows env0 g k N)
                 in distinct idx \<and> length idx = k \<and> (\<forall>j \<in> set idx. j < N))"
    by (simp add: env0_def)
  from C5_record_subsample[OF run n smp] show ?thesis
    by auto
qed

subsection \<open>Resuming from a saved result\<close>










subsection \<open>Saving and loading a result\<close>











end
